theory Spec2Isabelle
  imports Complex_Main
begin

section \<open>Label fading: the \<open>RenderState\<close> state machine of harp.gl\<close>

text \<open>
  The embedding follows the class \<^verbatim>\<open>RenderState\<close> (src/unnamed/part_001, lines 1-273) and
  the tables and checks of the test of \<^verbatim>\<open>TextElementsRenderer\<close> (src/unnamed/part_000).

  JavaScript numbers are modelled exactly: times, progress values and opacities are
  \<^typ>\<open>real\<close>, frame numbers are \<^typ>\<open>int\<close>. Rounding of IEEE doubles, \<open>NaN\<close> and the
  infinities are outside the model. A method that mutates \<open>this\<close> takes the state and
  returns the new one; a method that also returns a value returns a pair.
\<close>

subsection \<open>Data\<close>

text \<open>
  The test file has an enum of its own, \<^verbatim>\<open>enum FadeState\<close> (part_000, lines 685-690): what
  a test expects to observe of a label in a frame. It is declared first, so that the
  unqualified names \<open>FadingIn\<close>, \<open>FadedIn\<close>, \<open>FadingOut\<close>, \<open>FadedOut\<close> below are those of
  the class's \<open>FadingState\<close>; the test's are written \<open>FadeState.FadingIn\<close> and so on.
\<close>

datatype FadeState = FadingIn | FadedIn | FadingOut | FadedOut

text \<open>\<^verbatim>\<open>enum FadingState\<close> (lines 13-19).\<close>

datatype FadingState = Undefined | FadingIn | FadedIn | FadingOut | FadedOut

text \<open>\<^verbatim>\<open>DEFAULT_FADE_TIME\<close> (line 24) and \<^verbatim>\<open>Number.MIN_SAFE_INTEGER\<close>, that is \<open>-(2^53 - 1)\<close>.\<close>

definition DEFAULT_FADE_TIME :: real where
  "DEFAULT_FADE_TIME = 800"

definition MIN_SAFE_INTEGER :: int where
  "MIN_SAFE_INTEGER = - 9007199254740991"

text \<open>
  \<^verbatim>\<open>class RenderState\<close>: the private fields \<open>m_state\<close>, \<open>m_visible\<close> and the four public
  constructor properties (lines 33-50).
\<close>

record RenderState =
  m_state :: FadingState
  m_visible :: bool
  "value" :: real
  startTime :: real
  opacity :: real
  lastFrameNumber :: int

subsection \<open>Helpers the class calls\<close>

text \<open>
  \<^verbatim>\<open>THREE.Math.clamp(value, min, max)\<close> of three.js:
  \<^verbatim>\<open>Math.max(min, Math.min(max, value))\<close>.
\<close>

definition clamp :: "real \<Rightarrow> real \<Rightarrow> real \<Rightarrow> real" where
  "clamp v lo hi = max lo (min hi v)"

text \<open>
  Modelled from the spec: \<^verbatim>\<open>MathUtils.smootherStep(edge0, edge1, x)\<close> of
  \<^verbatim>\<open>@here/harp-utils\<close> is not under src/. The spec calls it the smoother-step easing
  between the start and the end opacity: the argument is rescaled to the edges, clamped
  to \<open>[0,1]\<close> and fed to the quintic \<open>6x^5 - 15x^4 + 10x^3\<close>. The class calls it only
  with the edges \<open>(0,1)\<close> and \<open>(1,0)\<close>, so the division is never by zero.
\<close>

definition smootherStep :: "real \<Rightarrow> real \<Rightarrow> real \<Rightarrow> real" where
  "smootherStep edge0 edge1 x =
     (let x = clamp ((x - edge0) / (edge1 - edge0)) 0 1
      in x * x * x * (x * (x * 6 - 15) + 10))"

subsection \<open>The class\<close>

text \<open>The constructor with its four parameters, and the call with every default.\<close>

definition RenderState_new :: "real \<Rightarrow> real \<Rightarrow> real \<Rightarrow> int \<Rightarrow> RenderState" where
  "RenderState_new v st op lf =
     \<lparr>m_state = Undefined, m_visible = False, value = v, startTime = st,
      opacity = op, lastFrameNumber = lf\<rparr>"

definition RenderState_default :: RenderState where
  "RenderState_default = RenderState_new 0 0 1 MIN_SAFE_INTEGER"

text \<open>\<^verbatim>\<open>reset()\<close> (lines 55-62).\<close>

definition reset :: "RenderState \<Rightarrow> RenderState" where
  "reset this =
     this\<lparr>m_state := Undefined, m_visible := False, value := 0, startTime := 0,
          opacity := 1, lastFrameNumber := MIN_SAFE_INTEGER\<rparr>"

text \<open>The state queries (lines 67-117).\<close>

definition isUndefined :: "RenderState \<Rightarrow> bool" where
  "isUndefined this = (m_state this = Undefined)"

definition isFading :: "RenderState \<Rightarrow> bool" where
  "isFading this = (m_state this = FadingIn \<or> m_state this = FadingOut)"

definition isFadingIn :: "RenderState \<Rightarrow> bool" where
  "isFadingIn this = (m_state this = FadingIn)"

definition isFadingOut :: "RenderState \<Rightarrow> bool" where
  "isFadingOut this = (m_state this = FadingOut)"

definition isFadedIn :: "RenderState \<Rightarrow> bool" where
  "isFadedIn this = (m_state this = FadedIn)"

definition isFadedOut :: "RenderState \<Rightarrow> bool" where
  "isFadedOut this = (m_state this = FadedOut)"

definition isVisible :: "RenderState \<Rightarrow> bool" where
  "isVisible this = m_visible this"

text \<open>\<^verbatim>\<open>startFadeIn(frameNumber, time)\<close> (lines 177-199).\<close>

definition startFadeIn :: "int \<Rightarrow> real \<Rightarrow> RenderState \<Rightarrow> RenderState" where
  "startFadeIn frameNumber time this0 =
     (let this = (if lastFrameNumber this0 < frameNumber - 1 then reset this0 else this0)
      in if m_state this = FadingIn \<or> m_state this = FadedIn then this
         else
           let this =
             (if m_state this = FadingOut then
                (let this = this\<lparr>value := 1 - value this\<rparr>
                 in this\<lparr>startTime := time - value this * DEFAULT_FADE_TIME\<rparr>)
              else this\<lparr>startTime := time, value := 0, opacity := 0\<rparr>)
           in this\<lparr>m_state := FadingIn, m_visible := True\<rparr>)"

text \<open>\<^verbatim>\<open>startFadeOut(frameNumber, time)\<close> (lines 209-230).\<close>

definition startFadeOut :: "int \<Rightarrow> real \<Rightarrow> RenderState \<Rightarrow> RenderState" where
  "startFadeOut frameNumber time this0 =
     (let this = (if lastFrameNumber this0 < frameNumber - 1 then reset this0 else this0)
      in if m_state this = FadingOut \<or> m_state this = FadedOut then this
         else
           let this =
             (if m_state this = FadingIn then
                (let this = this\<lparr>startTime := time - value this * DEFAULT_FADE_TIME\<rparr>
                 in this\<lparr>value := 1 - value this\<rparr>)
              else this\<lparr>startTime := time, value := 0, opacity := 1\<rparr>)
           in this\<lparr>m_state := FadingOut\<rparr>)"

text \<open>
  \<^verbatim>\<open>checkStartFadeIn(frameNumber, time, forceFadeIn = false)\<close> (lines 129-142) and
  \<^verbatim>\<open>checkStartFadeOut(frameNumber, time, forceFadeOut = true)\<close> (lines 154-167); the
  result is \<^verbatim>\<open>this.isFading()\<close>.
\<close>

definition checkStartFadeIn :: "int \<Rightarrow> real \<Rightarrow> bool \<Rightarrow> RenderState \<Rightarrow> bool \<times> RenderState" where
  "checkStartFadeIn frameNumber time forceFadeIn this0 =
     (let this =
        (if forceFadeIn \<or> m_state this0 = Undefined \<or> lastFrameNumber this0 < frameNumber - 1
         then startFadeIn frameNumber time this0 else this0);
          this = this\<lparr>lastFrameNumber := frameNumber\<rparr>
      in (isFading this, this))"

definition checkStartFadeOut :: "int \<Rightarrow> real \<Rightarrow> bool \<Rightarrow> RenderState \<Rightarrow> bool \<times> RenderState" where
  "checkStartFadeOut frameNumber time forceFadeOut this0 =
     (let this =
        (if forceFadeOut \<or> m_state this0 = Undefined \<or> lastFrameNumber this0 < frameNumber - 1
         then startFadeOut frameNumber time this0 else this0);
          this = this\<lparr>lastFrameNumber := frameNumber\<rparr>
      in (isFading this, this))"

text \<open>\<^verbatim>\<open>updateFading(time, disableFading)\<close> (lines 241-272).\<close>

definition updateFading :: "real \<Rightarrow> bool \<Rightarrow> RenderState \<Rightarrow> bool \<times> RenderState" where
  "updateFading time disableFading this0 =
     (if m_state this0 \<noteq> FadingIn \<and> m_state this0 \<noteq> FadingOut then (m_visible this0, this0)
      else
        let this = (if startTime this0 = 0 then this0\<lparr>startTime := time\<rparr> else this0);
            fadingTime = time - startTime this;
            startValue = (if m_state this = FadingIn then 0 else 1);
            endValue = (if m_state this = FadingIn then 1 else 0)
        in if disableFading \<or> fadingTime \<ge> DEFAULT_FADE_TIME then
             let this = this\<lparr>value := 1, opacity := endValue\<rparr>;
                 this = this\<lparr>m_state := (if m_state this = FadingIn then FadedIn else FadedOut)\<rparr>;
                 this = this\<lparr>m_visible := (m_state this = FadedIn)\<rparr>
             in (m_visible this, this)
           else
             let this = this\<lparr>value := fadingTime / DEFAULT_FADE_TIME\<rparr>;
                 this = this\<lparr>opacity := clamp (smootherStep startValue endValue (value this)) 0 1\<rparr>
             in (m_visible this, this))"

subsection \<open>Sequences of calls\<close>

text \<open>
  A call of one of the mutating methods with its arguments, the state after one call, the
  states after each call of a sequence, and the state after the whole sequence.
\<close>

datatype Call =
    Reset
  | StartFadeIn int real
  | StartFadeOut int real
  | CheckStartFadeIn int real bool
  | CheckStartFadeOut int real bool
  | UpdateFading real bool

fun call :: "Call \<Rightarrow> RenderState \<Rightarrow> RenderState" where
  "call Reset s = reset s"
| "call (StartFadeIn frameNumber time) s = startFadeIn frameNumber time s"
| "call (StartFadeOut frameNumber time) s = startFadeOut frameNumber time s"
| "call (CheckStartFadeIn frameNumber time force) s = snd (checkStartFadeIn frameNumber time force s)"
| "call (CheckStartFadeOut frameNumber time force) s = snd (checkStartFadeOut frameNumber time force s)"
| "call (UpdateFading time disableFading) s = snd (updateFading time disableFading s)"

fun calls :: "Call list \<Rightarrow> RenderState \<Rightarrow> RenderState list" where
  "calls [] s = []"
| "calls (c # cs) s = call c s # calls cs (call c s)"

fun run :: "Call list \<Rightarrow> RenderState \<Rightarrow> RenderState" where
  "run [] s = s"
| "run (c # cs) s = run cs (call c s)"

text \<open>The two invariants of the proofs below.\<close>

definition opacity_ok :: "RenderState \<Rightarrow> bool" where
  "opacity_ok s = (0 \<le> opacity s \<and> opacity s \<le> 1)"

definition visible_ok :: "RenderState \<Rightarrow> bool" where
  "visible_ok s =
     ((m_state s = FadingIn \<or> m_state s = FadedIn \<longrightarrow> m_visible s)
    \<and> (m_state s = Undefined \<or> m_state s = FadedOut \<longrightarrow> \<not> m_visible s))"

subsection \<open>The tables and checks of the renderer's test\<close>

text \<open>
  \<^verbatim>\<open>INITIAL_TIME\<close> (line 683), \<^verbatim>\<open>FADE_CYCLE\<close> (692-697), \<^verbatim>\<open>fadeNCycles\<close> (701-711),
  \<^verbatim>\<open>FADE_2_CYCLES\<close> (699), \<^verbatim>\<open>FADE_IN\<close> (713-718), \<^verbatim>\<open>FADE_OUT\<close> (720),
  \<^verbatim>\<open>FADE_IN_OUT\<close> (722) and \<^verbatim>\<open>firstNFrames\<close> (746-748) of part_000.
\<close>

definition INITIAL_TIME :: real where
  "INITIAL_TIME = 1"

definition FADE_CYCLE :: "real list" where
  "FADE_CYCLE =
     [INITIAL_TIME,
      INITIAL_TIME + DEFAULT_FADE_TIME / 3,
      INITIAL_TIME + DEFAULT_FADE_TIME / 2,
      INITIAL_TIME + DEFAULT_FADE_TIME]"



definition FADE_IN :: "FadeState list" where
  "FADE_IN = [FadeState.FadedOut, FadeState.FadingIn, FadeState.FadingIn, FadeState.FadedIn]"







text \<open>
  What the fixture checks of a point label in a frame (lines 196-222, 311-337, 477-495).
  The first argument stands for the text element as the spies saw it in the frame:
  \<open>None\<close> when its text buffer was not submitted, \<open>Some opacity\<close> when it was submitted
  (once) with that opacity. A check returns \<open>None\<close> when one of its assertions fails,
  and the new value of the test's opacity map otherwise.
\<close>

definition checkOpacity :: "real \<Rightarrow> (real \<Rightarrow> bool) \<Rightarrow> bool" where
  "checkOpacity actualOpacity opacityMatcher =
     (0 \<le> actualOpacity \<and> actualOpacity \<le> 1 \<and> opacityMatcher actualOpacity)"

fun checkPointTextRendered :: "real option \<Rightarrow> (real \<Rightarrow> bool) \<Rightarrow> real option" where
  "checkPointTextRendered None opacityMatcher = None"
| "checkPointTextRendered (Some actualOpacity) opacityMatcher =
     (if checkOpacity actualOpacity opacityMatcher then Some actualOpacity else None)"

fun checkPointTextNotRendered :: "real option \<Rightarrow> bool" where
  "checkPointTextNotRendered None = True"
| "checkPointTextNotRendered (Some actualOpacity) = False"

fun checkTextElementState :: "real option \<Rightarrow> FadeState \<Rightarrow> real \<Rightarrow> real option" where
  "checkTextElementState textElement FadeState.FadingIn prevOpacity =
     checkPointTextRendered textElement (\<lambda>opacity. opacity > prevOpacity)"
| "checkTextElementState textElement FadeState.FadingOut prevOpacity =
     checkPointTextRendered textElement (\<lambda>opacity. opacity < prevOpacity)"
| "checkTextElementState textElement FadeState.FadedIn prevOpacity =
     checkPointTextRendered textElement (\<lambda>opacity. opacity = 1)"
| "checkTextElementState textElement FadeState.FadedOut prevOpacity =
     (if checkPointTextNotRendered textElement then Some 0 else None)"

text \<open>
  The loop of a test over its frames, for one label (lines 1055-1086): the opacity map
  starts at 0 (line 1043) and every frame's check has to pass.
\<close>

fun checkFrames :: "FadeState list \<Rightarrow> real option list \<Rightarrow> real \<Rightarrow> bool" where
  "checkFrames [] [] prevOpacity = True"
| "checkFrames (expectedState # states) (textElement # frames) prevOpacity =
     (case checkTextElementState textElement expectedState prevOpacity of
        None \<Rightarrow> False
      | Some newOpacity \<Rightarrow> checkFrames states frames newOpacity)"
| "checkFrames states frames prevOpacity = False"

subsection \<open>The polynomial of the easing\<close>

text \<open>The quintic of \<open>smootherStep\<close> on its own, for the proofs about its growth.\<close>

definition quintic :: "real \<Rightarrow> real" where
  "quintic x = x * x * x * (x * (x * 6 - 15) + 10)"

subsection \<open>The fade update of one label in a placement pass\<close>

text \<open>
  Modelled from the spec: the placement orchestrator (\<^verbatim>\<open>TextElementsRenderer.placeText\<close>)
  is not under src/. Spec 4.1 and 4.3, step 5, for one label in one pass: the fading of
  the label is updated to the frame's time, and the label gets \<open>checkStartFadeIn\<close> when
  it was placed and \<open>checkStartFadeOut\<close> when it was not (with the defaults of the \<open>force\<close>
  arguments). The spec leaves the order of the two open; a fade started in a pass has
  its first update in the next pass here.
\<close>

definition fadeUpdate :: "int \<Rightarrow> real \<Rightarrow> bool \<Rightarrow> RenderState \<Rightarrow> RenderState" where
  "fadeUpdate frameNumber time placed s0 =
     (let s = snd (updateFading time False s0)
      in snd (if placed then checkStartFadeIn frameNumber time False s
              else checkStartFadeOut frameNumber time True s))"

text \<open>
  Modelled from the spec: step 6 of the same pass, also not under src/. A label is
  rendered, with the opacity of its state, when the state reports visible and the
  opacity is above 0.
\<close>

definition renderedOpacity :: "RenderState \<Rightarrow> real option" where
  "renderedOpacity s = (if m_visible s \<and> opacity s > 0 then Some (opacity s) else None)"

text \<open>
  Modelled from the spec: consecutive placement passes (frame numbers \<open>n, n + 1, ...\<close>) at
  the given times over one label that is visited and placed in every frame; the result
  lists the label's state after each pass.
\<close>

fun placeFrames :: "int \<Rightarrow> real list \<Rightarrow> RenderState \<Rightarrow> RenderState list" where
  "placeFrames frameNumber [] s = []"
| "placeFrames frameNumber (time # frameTimes) s =
     fadeUpdate frameNumber time True s
       # placeFrames (frameNumber + 1) frameTimes (fadeUpdate frameNumber time True s)"



section \<open>Case rules of the methods\<close>

lemma clamp_unit: "0 \<le> clamp x 0 1 \<and> clamp x 0 1 \<le> 1"
  by (simp add: clamp_def)

lemma updateFading_not_fading:
  "m_state s \<noteq> FadingIn \<Longrightarrow> m_state s \<noteq> FadingOut \<Longrightarrow> updateFading t d s = (m_visible s, s)"
  by (simp add: updateFading_def)

lemma updateFading_FadingIn_done:
  "m_state s = FadingIn \<Longrightarrow> d \<or> t - (if startTime s = 0 then t else startTime s) \<ge> DEFAULT_FADE_TIME \<Longrightarrow>
   updateFading t d s =
     (True, s\<lparr>startTime := (if startTime s = 0 then t else startTime s), value := 1, opacity := 1,
              m_state := FadedIn, m_visible := True\<rparr>)"
  by (cases "startTime s = 0") (auto simp add: updateFading_def Let_def)

lemma updateFading_FadingOut_done:
  "m_state s = FadingOut \<Longrightarrow> d \<or> t - (if startTime s = 0 then t else startTime s) \<ge> DEFAULT_FADE_TIME \<Longrightarrow>
   updateFading t d s =
     (False, s\<lparr>startTime := (if startTime s = 0 then t else startTime s), value := 1, opacity := 0,
               m_state := FadedOut, m_visible := False\<rparr>)"
  by (cases "startTime s = 0") (auto simp add: updateFading_def Let_def)

lemma updateFading_FadingIn_step:
  "m_state s = FadingIn \<Longrightarrow> \<not> d \<Longrightarrow> t - (if startTime s = 0 then t else startTime s) < DEFAULT_FADE_TIME \<Longrightarrow>
   updateFading t d s =
     (m_visible s,
      s\<lparr>startTime := (if startTime s = 0 then t else startTime s),
        value := (t - (if startTime s = 0 then t else startTime s)) / DEFAULT_FADE_TIME,
        opacity := clamp (smootherStep 0 1
           ((t - (if startTime s = 0 then t else startTime s)) / DEFAULT_FADE_TIME)) 0 1\<rparr>)"
  by (cases "startTime s = 0") (auto simp add: updateFading_def Let_def)

lemma updateFading_FadingOut_step:
  "m_state s = FadingOut \<Longrightarrow> \<not> d \<Longrightarrow> t - (if startTime s = 0 then t else startTime s) < DEFAULT_FADE_TIME \<Longrightarrow>
   updateFading t d s =
     (m_visible s,
      s\<lparr>startTime := (if startTime s = 0 then t else startTime s),
        value := (t - (if startTime s = 0 then t else startTime s)) / DEFAULT_FADE_TIME,
        opacity := clamp (smootherStep 1 0
           ((t - (if startTime s = 0 then t else startTime s)) / DEFAULT_FADE_TIME)) 0 1\<rparr>)"
  by (cases "startTime s = 0") (auto simp add: updateFading_def Let_def)

lemma updateFading_split:
  assumes "m_state s \<noteq> FadingIn \<Longrightarrow> m_state s \<noteq> FadingOut \<Longrightarrow> P (m_visible s, s)"
    and "m_state s = FadingIn \<Longrightarrow> P (True, s\<lparr>startTime := (if startTime s = 0 then t else startTime s),
            value := 1, opacity := 1, m_state := FadedIn, m_visible := True\<rparr>)"
    and "m_state s = FadingOut \<Longrightarrow> P (False, s\<lparr>startTime := (if startTime s = 0 then t else startTime s),
            value := 1, opacity := 0, m_state := FadedOut, m_visible := False\<rparr>)"
    and "\<And>x. m_state s = FadingIn \<Longrightarrow> P (m_visible s, s\<lparr>startTime := (if startTime s = 0 then t else startTime s),
            value := (t - (if startTime s = 0 then t else startTime s)) / DEFAULT_FADE_TIME,
            opacity := clamp x 0 1\<rparr>)"
    and "\<And>x. m_state s = FadingOut \<Longrightarrow> P (m_visible s, s\<lparr>startTime := (if startTime s = 0 then t else startTime s),
            value := (t - (if startTime s = 0 then t else startTime s)) / DEFAULT_FADE_TIME,
            opacity := clamp x 0 1\<rparr>)"
  shows "P (updateFading t d s)"
proof (cases "m_state s = FadingIn \<or> m_state s = FadingOut")
  case False
  then show ?thesis using assms(1) by (simp add: updateFading_not_fading)
next
  case fading: True
  show ?thesis
  proof (cases "d \<or> t - (if startTime s = 0 then t else startTime s) \<ge> DEFAULT_FADE_TIME")
    case True
    with fading assms(2,3) show ?thesis
      using updateFading_FadingIn_done [of s d t] updateFading_FadingOut_done [of s d t]
      by metis
  next
    case False
    then have "\<not> d" "t - (if startTime s = 0 then t else startTime s) < DEFAULT_FADE_TIME"
      by simp_all
    with fading assms(4,5) show ?thesis
      using updateFading_FadingIn_step [of s d t] updateFading_FadingOut_step [of s d t]
      by metis
  qed
qed


lemma snd_checkStartFadeIn:
  "snd (checkStartFadeIn f t force s) =
     (if force \<or> m_state s = Undefined \<or> lastFrameNumber s < f - 1
      then startFadeIn f t s else s)\<lparr>lastFrameNumber := f\<rparr>"
  by (simp add: checkStartFadeIn_def Let_def)

lemma snd_checkStartFadeOut:
  "snd (checkStartFadeOut f t force s) =
     (if force \<or> m_state s = Undefined \<or> lastFrameNumber s < f - 1
      then startFadeOut f t s else s)\<lparr>lastFrameNumber := f\<rparr>"
  by (simp add: checkStartFadeOut_def Let_def)

lemma startFadeIn_stale:
  "lastFrameNumber s < f - 1 \<Longrightarrow>
   startFadeIn f t s =
     s\<lparr>m_state := FadingIn, m_visible := True, value := 0, startTime := t, opacity := 0,
       lastFrameNumber := MIN_SAFE_INTEGER\<rparr>"
  by (simp add: startFadeIn_def reset_def)

lemma startFadeIn_begin:
  "\<not> lastFrameNumber s < f - 1 \<Longrightarrow> m_state s = Undefined \<or> m_state s = FadedOut \<Longrightarrow>
   startFadeIn f t s =
     s\<lparr>m_state := FadingIn, m_visible := True, value := 0, startTime := t, opacity := 0\<rparr>"
  by (auto simp add: startFadeIn_def)

lemma startFadeIn_reverse:
  "\<not> lastFrameNumber s < f - 1 \<Longrightarrow> m_state s = FadingOut \<Longrightarrow>
   startFadeIn f t s =
     s\<lparr>m_state := FadingIn, m_visible := True, value := 1 - value s,
       startTime := t - (1 - value s) * DEFAULT_FADE_TIME\<rparr>"
  by (simp add: startFadeIn_def Let_def)

lemma startFadeIn_same:
  "\<not> lastFrameNumber s < f - 1 \<Longrightarrow> m_state s = FadingIn \<or> m_state s = FadedIn \<Longrightarrow>
   startFadeIn f t s = s"
  by (auto simp add: startFadeIn_def)

lemma startFadeOut_stale:
  "lastFrameNumber s < f - 1 \<Longrightarrow>
   startFadeOut f t s =
     s\<lparr>m_state := FadingOut, m_visible := False, value := 0, startTime := t, opacity := 1,
       lastFrameNumber := MIN_SAFE_INTEGER\<rparr>"
  by (simp add: startFadeOut_def reset_def)


lemma startFadeOut_reverse:
  "\<not> lastFrameNumber s < f - 1 \<Longrightarrow> m_state s = FadingIn \<Longrightarrow>
   startFadeOut f t s =
     s\<lparr>m_state := FadingOut, value := 1 - value s,
       startTime := t - value s * DEFAULT_FADE_TIME\<rparr>"
  by (simp add: startFadeOut_def Let_def)

lemma startFadeOut_same:
  "\<not> lastFrameNumber s < f - 1 \<Longrightarrow> m_state s = FadingOut \<or> m_state s = FadedOut \<Longrightarrow>
   startFadeOut f t s = s"
  by (auto simp add: startFadeOut_def)

lemma startFadeIn_default:
  "startFadeIn f t RenderState_default =
     \<lparr>m_state = FadingIn, m_visible = True, value = 0, startTime = t, opacity = 0,
      lastFrameNumber = MIN_SAFE_INTEGER\<rparr>"
  by (cases "MIN_SAFE_INTEGER < f - 1")
     (simp_all add: startFadeIn_def reset_def RenderState_default_def RenderState_new_def)

lemma fadeUpdate_placed:
  "snd (updateFading t False s) = u \<Longrightarrow>
   fadeUpdate f t True s =
     (if m_state u = Undefined \<or> lastFrameNumber u < f - 1 then startFadeIn f t u else u)
       \<lparr>lastFrameNumber := f\<rparr>"
  by (simp add: fadeUpdate_def snd_checkStartFadeIn)


lemma smootherStep_0_1: "0 \<le> x \<Longrightarrow> x \<le> 1 \<Longrightarrow> smootherStep 0 1 x = x * x * x * (x * (x * 6 - 15) + 10)"
  by (simp add: smootherStep_def clamp_def)

lemma smootherStep_1_0: "0 \<le> x \<Longrightarrow> x \<le> 1 \<Longrightarrow>
    smootherStep 1 0 x = (1 - x) * (1 - x) * (1 - x) * ((1 - x) * ((1 - x) * 6 - 15) + 10)"
  by (simp add: smootherStep_def clamp_def Let_def)



lemma m_state_default: "m_state RenderState_default = Undefined"
  by (simp add: RenderState_default_def RenderState_new_def)

section \<open>Invariants\<close>

lemma opacity_ok_reset: "opacity_ok (reset s)"
  by (simp add: opacity_ok_def reset_def)

lemma opacity_ok_startFadeIn: "opacity_ok s \<Longrightarrow> opacity_ok (startFadeIn f t s)"
  by (cases "lastFrameNumber s < f - 1"; cases "m_state s")
     (simp_all add: opacity_ok_def startFadeIn_def reset_def)

lemma opacity_ok_startFadeOut: "opacity_ok s \<Longrightarrow> opacity_ok (startFadeOut f t s)"
  by (cases "lastFrameNumber s < f - 1"; cases "m_state s")
     (simp_all add: opacity_ok_def startFadeOut_def reset_def)

lemma opacity_ok_lastFrameNumber: "opacity_ok (s\<lparr>lastFrameNumber := f\<rparr>) = opacity_ok s"
  by (simp add: opacity_ok_def)

lemma opacity_ok_checkStartFadeIn:
  "opacity_ok s \<Longrightarrow> opacity_ok (snd (checkStartFadeIn f t force s))"
  by (simp add: snd_checkStartFadeIn opacity_ok_lastFrameNumber opacity_ok_startFadeIn)

lemma opacity_ok_checkStartFadeOut:
  "opacity_ok s \<Longrightarrow> opacity_ok (snd (checkStartFadeOut f t force s))"
  by (simp add: snd_checkStartFadeOut opacity_ok_lastFrameNumber opacity_ok_startFadeOut)

lemma opacity_ok_updateFading: "opacity_ok s \<Longrightarrow> opacity_ok (snd (updateFading t d s))"
  by (rule updateFading_split [where P = "\<lambda>r. opacity_ok (snd r)"])
     (simp_all add: opacity_ok_def clamp_unit)

lemma opacity_ok_call: "opacity_ok s \<Longrightarrow> opacity_ok (call c s)"
  by (cases c)
    (simp_all add: opacity_ok_reset opacity_ok_startFadeIn opacity_ok_startFadeOut
      opacity_ok_checkStartFadeIn opacity_ok_checkStartFadeOut opacity_ok_updateFading)

lemma opacity_ok_calls: "opacity_ok s \<Longrightarrow> \<forall>s' \<in> set (calls cs s). opacity_ok s'"
proof (induction cs arbitrary: s)
  case Nil
  show ?case by simp
next
  case (Cons c cs)
  from Cons.prems have step: "opacity_ok (call c s)" by (rule opacity_ok_call)
  with Cons.IH [of "call c s"] show ?case by simp
qed

lemma visible_ok_new: "visible_ok (RenderState_new v st op lf)"
  by (simp add: visible_ok_def RenderState_new_def)

lemma visible_ok_reset: "visible_ok (reset s)"
  by (simp add: visible_ok_def reset_def)

lemma visible_ok_startFadeIn: "visible_ok s \<Longrightarrow> visible_ok (startFadeIn f t s)"
  by (cases "lastFrameNumber s < f - 1"; cases "m_state s")
     (simp_all add: visible_ok_def startFadeIn_def reset_def)

lemma visible_ok_startFadeOut: "visible_ok s \<Longrightarrow> visible_ok (startFadeOut f t s)"
  by (cases "lastFrameNumber s < f - 1"; cases "m_state s")
     (simp_all add: visible_ok_def startFadeOut_def reset_def)

lemma visible_ok_lastFrameNumber: "visible_ok (s\<lparr>lastFrameNumber := f\<rparr>) = visible_ok s"
  by (simp add: visible_ok_def)

lemma visible_ok_checkStartFadeIn:
  "visible_ok s \<Longrightarrow> visible_ok (snd (checkStartFadeIn f t force s))"
  by (simp add: snd_checkStartFadeIn visible_ok_lastFrameNumber visible_ok_startFadeIn)

lemma visible_ok_checkStartFadeOut:
  "visible_ok s \<Longrightarrow> visible_ok (snd (checkStartFadeOut f t force s))"
  by (simp add: snd_checkStartFadeOut visible_ok_lastFrameNumber visible_ok_startFadeOut)

lemma visible_ok_updateFading: "visible_ok s \<Longrightarrow> visible_ok (snd (updateFading t d s))"
  by (rule updateFading_split [where P = "\<lambda>r. visible_ok (snd r)"])
     (simp_all add: visible_ok_def)

lemma visible_ok_call: "visible_ok s \<Longrightarrow> visible_ok (call c s)"
  by (cases c)
    (simp_all add: visible_ok_reset visible_ok_startFadeIn visible_ok_startFadeOut
      visible_ok_checkStartFadeIn visible_ok_checkStartFadeOut visible_ok_updateFading)

lemma visible_ok_run: "visible_ok s \<Longrightarrow> visible_ok (run cs s)"
  by (induction cs arbitrary: s) (simp_all add: visible_ok_call)

lemma updateFading_returns_m_visible: "fst (updateFading t d s) = m_visible (snd (updateFading t d s))"
  by (rule updateFading_split [where P = "\<lambda>r. fst r = m_visible (snd r)"]) simp_all

lemma updateFading_FadingOut_after:
  "m_state (snd (updateFading t d s)) = FadingOut \<longrightarrow> fst (updateFading t d s) = m_visible s"
  by (rule updateFading_split
       [where P = "\<lambda>r. m_state (snd r) = FadingOut \<longrightarrow> fst r = m_visible s"]) simp_all

lemma startFadeOut_keeps_visible:
  "lastFrameNumber s \<ge> f - 1 \<Longrightarrow> m_state s = FadingIn \<or> m_state s = FadedIn \<Longrightarrow>
   m_state (startFadeOut f t s) = FadingOut \<and> m_visible (startFadeOut f t s) = m_visible s"
  by (cases "m_state s") (simp_all add: startFadeOut_def Let_def)

lemma startFadeOut_stale_invisible:
  "lastFrameNumber s < f - 1 \<Longrightarrow>
   m_state (startFadeOut f t s) = FadingOut \<and> \<not> m_visible (startFadeOut f t s)"
  by (simp add: startFadeOut_def reset_def)

lemma startFadeOut_Undefined_invisible:
  "m_state s = Undefined \<Longrightarrow> \<not> m_visible s \<Longrightarrow>
   m_state (startFadeOut f t s) = FadingOut \<and> \<not> m_visible (startFadeOut f t s)"
  by (cases "lastFrameNumber s < f - 1") (simp_all add: startFadeOut_def reset_def)


section \<open>Reversing a fade\<close>

lemma smootherStep_reversed: "smootherStep 1 0 x = smootherStep 0 1 (1 - x)"
  by (simp add: smootherStep_def)

lemma startFadeIn_reversal_no_jump:
  assumes "\<not> lastFrameNumber s < f - 1" and "m_state s = FadingOut"
    and "0 < value s" and "value s \<le> 1"
    and "opacity s = clamp (smootherStep 1 0 (value s)) 0 1"
    and "time - (1 - value s) * DEFAULT_FADE_TIME \<noteq> 0"
  shows "value (startFadeIn f time s) = 1 - value s
       \<and> startTime (startFadeIn f time s) = time - value (startFadeIn f time s) * DEFAULT_FADE_TIME
       \<and> opacity (snd (updateFading time False (startFadeIn f time s))) = opacity s"
proof -
  let ?s = "startFadeIn f time s"
  have rev: "?s = s\<lparr>m_state := FadingIn, m_visible := True, value := 1 - value s,
       startTime := time - (1 - value s) * DEFAULT_FADE_TIME\<rparr>"
    using assms(1,2) by (rule startFadeIn_reverse)
  have st: "m_state ?s = FadingIn" and t0: "startTime ?s = time - (1 - value s) * DEFAULT_FADE_TIME"
    and op: "opacity ?s = opacity s" and v: "value ?s = 1 - value s"
    unfolding rev by simp_all
  have el: "time - (if startTime ?s = 0 then time else startTime ?s) = (1 - value s) * DEFAULT_FADE_TIME"
    using assms(6) unfolding t0 by simp
  have lt: "time - (if startTime ?s = 0 then time else startTime ?s) < DEFAULT_FADE_TIME"
    unfolding el using assms(3) by (simp add: DEFAULT_FADE_TIME_def)
  have "updateFading time False ?s =
      (m_visible ?s,
       ?s\<lparr>startTime := (if startTime ?s = 0 then time else startTime ?s),
          value := (time - (if startTime ?s = 0 then time else startTime ?s)) / DEFAULT_FADE_TIME,
          opacity := clamp (smootherStep 0 1
            ((time - (if startTime ?s = 0 then time else startTime ?s)) / DEFAULT_FADE_TIME)) 0 1\<rparr>)"
    using st lt by (intro updateFading_FadingIn_step) simp_all
  then have "opacity (snd (updateFading time False ?s))
      = clamp (smootherStep 0 1
          ((time - (if startTime ?s = 0 then time else startTime ?s)) / DEFAULT_FADE_TIME)) 0 1"
    by simp
  also have "\<dots> = clamp (smootherStep 0 1 (1 - value s)) 0 1"
  proof -
    have "(1 - value s) * DEFAULT_FADE_TIME / DEFAULT_FADE_TIME = 1 - value s"
      by (simp add: DEFAULT_FADE_TIME_def)
    then show ?thesis unfolding el by simp
  qed
  also have "\<dots> = clamp (smootherStep 1 0 (value s)) 0 1"
    by (simp add: smootherStep_reversed)
  finally show ?thesis using assms(5) v t0 by simp
qed

lemma startFadeOut_reversal_backdates_with_old_value:
  assumes "\<not> lastFrameNumber s < f - 1" and "m_state s = FadingIn"
  shows "value (startFadeOut f time s) = 1 - value s
       \<and> startTime (startFadeOut f time s) = time - value s * DEFAULT_FADE_TIME
       \<and> (startTime (startFadeOut f time s)
            = time - value (startFadeOut f time s) * DEFAULT_FADE_TIME
          \<longleftrightarrow> value s = 1 / 2)"
proof -
  have rev: "startFadeOut f time s =
      s\<lparr>m_state := FadingOut, value := 1 - value s,
        startTime := time - value s * DEFAULT_FADE_TIME\<rparr>"
    using assms by (rule startFadeOut_reverse)
  show ?thesis unfolding rev by (auto simp add: DEFAULT_FADE_TIME_def)
qed

text \<open>
  C1. Reversing a fade mid-transition sets the progress to \<open>1 - value\<close> and back-dates
  the start time to \<open>time - value' * duration\<close> with the new value \<open>value'\<close>, so that the
  next \<open>updateFading\<close> at the reversal time gives the opacity there was before.
  \<open>startFadeIn\<close> on a state fading out does so (\<open>startFadeIn_reversal_no_jump\<close>).
  \<open>startFadeOut\<close> on a state fading in does not: it back-dates with the old value
  (\<open>startFadeOut_reversal_backdates_with_old_value\<close>), which is right at progress 1/2 only. A
  label that faded in from time 1 and is at progress 1/4 and opacity 53/512 at time 201
  is asked to fade out at time 201; the start time becomes \<open>201 - 1/4 * 800 = 1\<close>
  and not \<open>201 - 3/4 * 800 = -399\<close>, and the update at time 201 puts the opacity at 459/512.
\<close>

theorem startFadeOut_reversal_jumps:
  "snd (updateFading 201 False (snd (checkStartFadeIn 2 201 False
       (snd (updateFading 1 False (snd (checkStartFadeIn 1 1 False RenderState_default)))))))
     = \<lparr>m_state = FadingIn, m_visible = True, value = 1/4, startTime = 1,
        opacity = 53/512, lastFrameNumber = 2\<rparr>
   \<and> startFadeOut 3 201 \<lparr>m_state = FadingIn, m_visible = True, value = 1/4, startTime = 1,
        opacity = 53/512, lastFrameNumber = 2\<rparr>
     = \<lparr>m_state = FadingOut, m_visible = True, value = 3/4, startTime = 1,
        opacity = 53/512, lastFrameNumber = 2\<rparr>
   \<and> 201 - (3/4) * DEFAULT_FADE_TIME = - 399
   \<and> snd (updateFading 201 False \<lparr>m_state = FadingOut, m_visible = True, value = 3/4,
        startTime = 1, opacity = 53/512, lastFrameNumber = 2\<rparr>)
     = \<lparr>m_state = FadingOut, m_visible = True, value = 1/4, startTime = 1,
        opacity = 459/512, lastFrameNumber = 2\<rparr>"
proof -
  let ?a = "\<lparr>m_state = FadingIn, m_visible = True, value = 0, startTime = 1,
        opacity = 0, lastFrameNumber = 1\<rparr>"
  let ?b = "\<lparr>m_state = FadingIn, m_visible = True, value = 1/4, startTime = 1,
        opacity = 53/512, lastFrameNumber = 2\<rparr>"
  let ?c = "\<lparr>m_state = FadingOut, m_visible = True, value = 3/4, startTime = 1,
        opacity = 53/512, lastFrameNumber = 2\<rparr>"
  have a1: "snd (checkStartFadeIn 1 1 False RenderState_default) =
      \<lparr>m_state = FadingIn, m_visible = True, value = 0, startTime = 1,
        opacity = 0, lastFrameNumber = 1\<rparr>"
    by (simp add: snd_checkStartFadeIn m_state_default startFadeIn_default)
  have a2: "snd (updateFading 1 False ?a) = ?a"
    by (simp add: updateFading_FadingIn_step DEFAULT_FADE_TIME_def smootherStep_0_1 clamp_def)
  have a3: "snd (checkStartFadeIn 2 201 False ?a) = ?a\<lparr>lastFrameNumber := 2\<rparr>"
    by (simp add: snd_checkStartFadeIn)
  have a4: "snd (updateFading 201 False (?a\<lparr>lastFrameNumber := 2\<rparr>)) = ?b"
    by (simp add: updateFading_FadingIn_step DEFAULT_FADE_TIME_def smootherStep_0_1 clamp_def)
  have b1: "startFadeOut 3 201 ?b = ?c"
    by (simp add: startFadeOut_reverse DEFAULT_FADE_TIME_def)
  have c1: "snd (updateFading 201 False ?c) =
      \<lparr>m_state = FadingOut, m_visible = True, value = 1/4, startTime = 1,
        opacity = 459/512, lastFrameNumber = 2\<rparr>"
    by (simp add: updateFading_FadingOut_step DEFAULT_FADE_TIME_def smootherStep_1_0 clamp_def)
  show ?thesis unfolding a1 a2 a3 a4 b1 c1 by (simp add: DEFAULT_FADE_TIME_def)
qed

section \<open>What \<open>updateFading\<close> computes\<close>

text \<open>
  C3. \<open>updateFading\<close> leaves a state that is not fading unchanged; a fading state snaps to
  its terminal state, with opacity exactly 1 or 0, when fading is disabled or the elapsed
  time reaches \<open>DEFAULT_FADE_TIME\<close>, and otherwise gets \<open>value = elapsed / 800\<close> and the
  clamped smoother-step opacity. As amended: the elapsed time is \<open>time - startTime\<close> only
  when the stored \<open>startTime\<close> is not 0; when it is 0 the start time is first set to
  \<open>time\<close>, so the elapsed time is 0.
\<close>

theorem updateFading_effective_start:
  "(m_state s \<noteq> FadingIn \<and> m_state s \<noteq> FadingOut \<longrightarrow> updateFading time d s = (m_visible s, s))
 \<and> (m_state s = FadingIn \<or> m_state s = FadingOut \<longrightarrow>
      (let st = (if startTime s = 0 then time else startTime s);
           s' = snd (updateFading time d s)
       in fst (updateFading time d s) = m_visible s'
        \<and> startTime s' = st \<and> lastFrameNumber s' = lastFrameNumber s
        \<and> (d \<or> time - st \<ge> DEFAULT_FADE_TIME \<longrightarrow>
             value s' = 1
           \<and> (m_state s = FadingIn \<longrightarrow> m_state s' = FadedIn \<and> opacity s' = 1 \<and> m_visible s')
           \<and> (m_state s = FadingOut \<longrightarrow> m_state s' = FadedOut \<and> opacity s' = 0 \<and> \<not> m_visible s'))
        \<and> (\<not> d \<and> time - st < DEFAULT_FADE_TIME \<longrightarrow>
             m_state s' = m_state s \<and> m_visible s' = m_visible s
           \<and> value s' = (time - st) / DEFAULT_FADE_TIME
           \<and> opacity s' = clamp (smootherStep (if m_state s = FadingIn then 0 else 1)
                                   (if m_state s = FadingIn then 1 else 0)
                                   ((time - st) / DEFAULT_FADE_TIME)) 0 1
           \<and> 0 \<le> opacity s' \<and> opacity s' \<le> 1)))"
proof (cases "m_state s = FadingIn \<or> m_state s = FadingOut")
  case False
  then show ?thesis by (simp add: updateFading_not_fading)
next
  case fading: True
  let ?st = "if startTime s = 0 then time else startTime s"
  show ?thesis
  proof (cases "d \<or> time - ?st \<ge> DEFAULT_FADE_TIME")
    case True
    then show ?thesis
      using fading updateFading_FadingIn_done [of s d time] updateFading_FadingOut_done [of s d time]
      by (auto simp add: Let_def)
  next
    case False
    then have nd: "\<not> d" and lt: "time - ?st < DEFAULT_FADE_TIME" by simp_all
    show ?thesis
      using fading nd lt updateFading_FadingIn_step [of s d time]
        updateFading_FadingOut_step [of s d time] clamp_unit
      by (auto simp add: Let_def)
  qed
qed

theorem updateFading_effective_start_witness:
  "updateFading 5 False RenderState_default = (False, RenderState_default)
   \<and> m_state (snd (updateFading 801 False (startFadeIn 1 1 RenderState_default))) = FadedIn
   \<and> opacity (snd (updateFading 801 False (startFadeIn 1 1 RenderState_default))) = 1
   \<and> value (snd (updateFading 201 False (startFadeIn 1 1 RenderState_default))) = 1/4
   \<and> opacity (snd (updateFading 201 False (startFadeIn 1 1 RenderState_default))) = 53/512"
proof -
  let ?s = "startFadeIn 1 1 RenderState_default"
  have s: "m_state ?s = FadingIn" "startTime ?s = 1" by (simp_all add: startFadeIn_default)
  have u: "m_state RenderState_default = Undefined" "m_visible RenderState_default = False"
    by (simp_all add: RenderState_default_def RenderState_new_def)
  from updateFading_effective_start [of RenderState_default 5 False] u
  have "updateFading 5 False RenderState_default = (False, RenderState_default)" by simp
  moreover from updateFading_effective_start [of ?s 801 False] s
  have "m_state (snd (updateFading 801 False ?s)) = FadedIn
      \<and> opacity (snd (updateFading 801 False ?s)) = 1"
    by (simp add: Let_def DEFAULT_FADE_TIME_def)
  moreover from updateFading_effective_start [of ?s 201 False] s
  have "value (snd (updateFading 201 False ?s)) = 1/4
      \<and> opacity (snd (updateFading 201 False ?s)) = 53/512"
    by (simp add: Let_def DEFAULT_FADE_TIME_def smootherStep_0_1 clamp_def)
  ultimately show ?thesis by simp
qed

text \<open>
  The claim as stated fails on a fading state whose \<open>startTime\<close> is 0, as after
  \<open>startFadeIn(1, 0)\<close>: at time 1000 the difference \<open>time - startTime\<close> is above 800, yet
  the state stays \<open>FadingIn\<close> with value 0 and opacity 0.
\<close>

theorem updateFading_sentinel_counterexample:
  "m_state (startFadeIn 1 0 RenderState_default) = FadingIn
   \<and> startTime (startFadeIn 1 0 RenderState_default) = 0
   \<and> 1000 - startTime (startFadeIn 1 0 RenderState_default) \<ge> DEFAULT_FADE_TIME
   \<and> m_state (snd (updateFading 1000 False (startFadeIn 1 0 RenderState_default))) = FadingIn
   \<and> value (snd (updateFading 1000 False (startFadeIn 1 0 RenderState_default))) = 0
   \<and> opacity (snd (updateFading 1000 False (startFadeIn 1 0 RenderState_default))) = 0"
  by (simp add: startFadeIn_default updateFading_FadingIn_step DEFAULT_FADE_TIME_def
        smootherStep_0_1 clamp_def)

section \<open>Starting a fade\<close>

text \<open>
  C4. On a stale state (\<open>lastFrameNumber < frameNumber - 1\<close>), \<open>startFadeIn\<close> and
  \<open>startFadeOut\<close> first reset the state (to \<open>Undefined\<close>) and then start a fresh transition:
  opacity exactly 0 for a fade-in and exactly 1 for a fade-out, \<open>startTime = time\<close> and
  \<open>value = 0\<close>.
\<close>

theorem stale_startFade_resets_then_starts_fresh:
  assumes "lastFrameNumber s < frameNumber - 1"
  shows "startFadeIn frameNumber time s = startFadeIn frameNumber time (reset s)
       \<and> startFadeOut frameNumber time s = startFadeOut frameNumber time (reset s)
       \<and> m_state (reset s) = Undefined
       \<and> startFadeIn frameNumber time s =
           s\<lparr>m_state := FadingIn, m_visible := True, value := 0, startTime := time,
             opacity := 0, lastFrameNumber := MIN_SAFE_INTEGER\<rparr>
       \<and> startFadeOut frameNumber time s =
           s\<lparr>m_state := FadingOut, m_visible := False, value := 0, startTime := time,
             opacity := 1, lastFrameNumber := MIN_SAFE_INTEGER\<rparr>"
  using assms by (simp add: startFadeIn_def startFadeOut_def reset_def)

theorem stale_startFade_witness:
  "startFadeIn 10 5 \<lparr>m_state = FadingOut, m_visible = True, value = 1/4, startTime = 1,
       opacity = 459/512, lastFrameNumber = 7\<rparr>
     = \<lparr>m_state = FadingIn, m_visible = True, value = 0, startTime = 5,
       opacity = 0, lastFrameNumber = MIN_SAFE_INTEGER\<rparr>
   \<and> startFadeOut 10 5 \<lparr>m_state = FadingOut, m_visible = True, value = 1/4, startTime = 1,
       opacity = 459/512, lastFrameNumber = 7\<rparr>
     = \<lparr>m_state = FadingOut, m_visible = False, value = 0, startTime = 5,
       opacity = 1, lastFrameNumber = MIN_SAFE_INTEGER\<rparr>"
proof -
  let ?s = "\<lparr>m_state = FadingOut, m_visible = True, value = 1/4, startTime = 1,
       opacity = 459/512, lastFrameNumber = 7\<rparr>"
  have stale: "lastFrameNumber ?s < 10 - 1" by simp
  note fresh = stale_startFade_resets_then_starts_fresh [OF stale, of 5]
  from fresh have "startFadeIn 10 5 ?s =
      ?s\<lparr>m_state := FadingIn, m_visible := True, value := 0, startTime := 5,
         opacity := 0, lastFrameNumber := MIN_SAFE_INTEGER\<rparr>"
    by blast
  moreover from fresh have "startFadeOut 10 5 ?s =
      ?s\<lparr>m_state := FadingOut, m_visible := False, value := 0, startTime := 5,
         opacity := 1, lastFrameNumber := MIN_SAFE_INTEGER\<rparr>"
    by blast
  ultimately show ?thesis by simp
qed

text \<open>
  C5. On a state that is not stale (\<open>lastFrameNumber \<ge> frameNumber - 1\<close>),
  \<open>startFadeIn\<close> changes no field when the state is \<open>FadingIn\<close> or \<open>FadedIn\<close>, and
  \<open>startFadeOut\<close> changes no field when the state is \<open>FadingOut\<close> or \<open>FadedOut\<close>.
\<close>

theorem startFade_matching_state_unchanged:
  assumes "lastFrameNumber s \<ge> frameNumber - 1"
  shows "(m_state s = FadingIn \<or> m_state s = FadedIn \<longrightarrow> startFadeIn frameNumber time s = s)
       \<and> (m_state s = FadingOut \<or> m_state s = FadedOut \<longrightarrow> startFadeOut frameNumber time s = s)"
  using assms startFadeIn_same [of s frameNumber time] startFadeOut_same [of s frameNumber time]
  by auto

theorem startFade_matching_state_unchanged_witness:
  "startFadeIn 8 5 \<lparr>m_state = FadingIn, m_visible = True, value = 1/4, startTime = 1,
       opacity = 53/512, lastFrameNumber = 7\<rparr>
     = \<lparr>m_state = FadingIn, m_visible = True, value = 1/4, startTime = 1,
       opacity = 53/512, lastFrameNumber = 7\<rparr>
   \<and> startFadeOut 8 5 \<lparr>m_state = FadedOut, m_visible = False, value = 1, startTime = 1,
       opacity = 0, lastFrameNumber = 8\<rparr>
     = \<lparr>m_state = FadedOut, m_visible = False, value = 1, startTime = 1,
       opacity = 0, lastFrameNumber = 8\<rparr>"
proof -
  let ?a = "\<lparr>m_state = FadingIn, m_visible = True, value = 1/4, startTime = 1,
       opacity = 53/512, lastFrameNumber = 7\<rparr>"
  let ?b = "\<lparr>m_state = FadedOut, m_visible = False, value = 1, startTime = 1,
       opacity = 0, lastFrameNumber = 8\<rparr>"
  have a: "lastFrameNumber ?a \<ge> 8 - 1" and b: "lastFrameNumber ?b \<ge> 8 - 1" by simp_all
  from startFade_matching_state_unchanged [OF a, of 5] have "startFadeIn 8 5 ?a = ?a" by simp
  moreover from startFade_matching_state_unchanged [OF b, of 5] have "startFadeOut 8 5 ?b = ?b"
    by simp
  ultimately show ?thesis by simp
qed

lemma startFadeOut_default:
  "startFadeOut f t RenderState_default =
     \<lparr>m_state = FadingOut, m_visible = False, value = 0, startTime = t, opacity = 1,
      lastFrameNumber = MIN_SAFE_INTEGER\<rparr>"
  by (cases "MIN_SAFE_INTEGER < f - 1")
     (simp_all add: startFadeOut_def reset_def RenderState_default_def RenderState_new_def)

section \<open>The start time 0\<close>

text \<open>
  C10. The time 0 is a sentinel: on a fading state whose \<open>startTime\<close> is 0, \<open>updateFading\<close>
  first overwrites \<open>startTime\<close> with the given time, so the elapsed time of the fade is
  counted from that call (the progress is 0 there, and \<open>(time2 - time) / 800\<close> at a later
  update), not from the time the transition was started at.
\<close>

theorem updateFading_zero_startTime_restarts:
  assumes "m_state s = FadingIn \<or> m_state s = FadingOut" and "startTime s = 0"
  shows "updateFading time d s = updateFading time d (s\<lparr>startTime := time\<rparr>)
       \<and> startTime (snd (updateFading time d s)) = time
       \<and> (\<not> d \<longrightarrow> value (snd (updateFading time d s)) = 0
                \<and> m_state (snd (updateFading time d s)) = m_state s)
       \<and> (time \<noteq> 0 \<and> time2 - time < DEFAULT_FADE_TIME \<longrightarrow>
            value (snd (updateFading time2 False (snd (updateFading time False s))))
              = (time2 - time) / DEFAULT_FADE_TIME)"
  using assms by (auto simp add: updateFading_def Let_def DEFAULT_FADE_TIME_def)

theorem updateFading_zero_startTime_witness:
  "startTime (snd (updateFading 1000 False (startFadeIn 1 0 RenderState_default))) = 1000
   \<and> value (snd (updateFading 1000 False (startFadeIn 1 0 RenderState_default))) = 0
   \<and> m_state (snd (updateFading 1000 False (startFadeIn 1 0 RenderState_default))) = FadingIn
   \<and> value (snd (updateFading 1200 False
        (snd (updateFading 1000 False (startFadeIn 1 0 RenderState_default))))) = 1/4"
proof -
  let ?s = "startFadeIn 1 0 RenderState_default"
  have s: "m_state ?s = FadingIn \<or> m_state ?s = FadingOut" "startTime ?s = 0"
    by (simp_all add: startFadeIn_default)
  have m: "m_state ?s = FadingIn" by (simp add: startFadeIn_default)
  from updateFading_zero_startTime_restarts [OF s, of 1000 False 1200, THEN conjunct2] m
  show ?thesis by (simp add: DEFAULT_FADE_TIME_def)
qed

lemma FADE_CYCLE_times: "FADE_CYCLE = [1, 803 / 3, 401, 801]"
  by (simp add: FADE_CYCLE_def INITIAL_TIME_def DEFAULT_FADE_TIME_def)



lemma placeFrames_4:
  "placeFrames n [t0, t1, t2, t3] s =
     [fadeUpdate n t0 True s,
      fadeUpdate (n + 1) t1 True (fadeUpdate n t0 True s),
      fadeUpdate (n + 1 + 1) t2 True (fadeUpdate (n + 1) t1 True (fadeUpdate n t0 True s)),
      fadeUpdate (n + 1 + 1 + 1) t3 True
        (fadeUpdate (n + 1 + 1) t2 True (fadeUpdate (n + 1) t1 True (fadeUpdate n t0 True s)))]"
  by (simp only: placeFrames.simps)

section \<open>The opacity stays in the unit interval\<close>

text \<open>
  C2. For every RenderState and every sequence of calls of its operations, with any time
  and frame arguments, the opacity is in \<open>[0,1]\<close> after every call: after the constructor
  (with the default opacity 1 and any \<open>value\<close>, \<open>startTime\<close> and \<open>lastFrameNumber\<close>) and
  after each call of \<open>reset\<close>, \<open>startFadeIn\<close>, \<open>startFadeOut\<close>, \<open>checkStartFadeIn\<close>,
  \<open>checkStartFadeOut\<close> and \<open>updateFading\<close> that follows. The same holds from any
  constructor opacity in \<open>[0,1]\<close>.
\<close>

theorem opacity_in_unit_interval:
  "(\<forall>s \<in> set (RenderState_new v st 1 lf # calls cs (RenderState_new v st 1 lf)).
      0 \<le> opacity s \<and> opacity s \<le> 1)
 \<and> (0 \<le> op \<and> op \<le> 1 \<longrightarrow>
      (\<forall>s \<in> set (RenderState_new v st op lf # calls cs (RenderState_new v st op lf)).
         0 \<le> opacity s \<and> opacity s \<le> 1))"
proof -
  have all: "\<forall>s \<in> set (RenderState_new v st x lf # calls cs (RenderState_new v st x lf)).
      0 \<le> opacity s \<and> opacity s \<le> 1" if x: "0 \<le> x" "x \<le> 1" for x
  proof -
    have init: "opacity_ok (RenderState_new v st x lf)"
      unfolding opacity_ok_def RenderState_new_def using x by simp
    have "\<forall>s \<in> set (RenderState_new v st x lf # calls cs (RenderState_new v st x lf)). opacity_ok s"
      using init opacity_ok_calls [OF init, of cs] by simp
    then show ?thesis unfolding opacity_ok_def .
  qed
  have default: "\<forall>s \<in> set (RenderState_new v st 1 lf # calls cs (RenderState_new v st 1 lf)).
      0 \<le> opacity s \<and> opacity s \<le> 1"
    by (rule all) simp_all
  from default all [of op] show ?thesis by blast
qed

theorem opacity_in_unit_interval_witness:
  "0 \<le> opacity RenderState_default \<and> opacity RenderState_default \<le> 1
   \<and> 0 \<le> opacity (snd (updateFading 201 False (snd (checkStartFadeIn 1 1 False RenderState_default))))
   \<and> opacity (snd (updateFading 201 False (snd (checkStartFadeIn 1 1 False RenderState_default)))) \<le> 1"
proof -
  from opacity_in_unit_interval
    [of 0 0 MIN_SAFE_INTEGER "[CheckStartFadeIn 1 1 False, UpdateFading 201 False]", THEN conjunct1]
  show ?thesis by (simp add: RenderState_default_def)
qed

section \<open>The result of \<open>updateFading\<close>\<close>

lemma reached_visible_ok: "visible_ok (run cs (RenderState_new v st op lf))"
  by (simp add: visible_ok_run visible_ok_new)

lemma updateFading_result_of_reached_state:
  assumes reached: "s = run cs (RenderState_new v st op lf)"
    and update: "(r, s') = updateFading t d s"
  shows "r = m_visible s'
       \<and> (m_state s' = FadingIn \<or> m_state s' = FadedIn \<longrightarrow> r)
       \<and> (m_state s' = FadedOut \<or> m_state s' = Undefined \<longrightarrow> \<not> r)
       \<and> (m_state s' = FadingOut \<longrightarrow> r = m_visible s)"
proof -
  from update [symmetric] have r: "r = fst (updateFading t d s)"
    and s': "s' = snd (updateFading t d s)" by simp_all
  have inv: "visible_ok s" unfolding reached by (rule reached_visible_ok)
  then have inv': "visible_ok s'" unfolding s' by (rule visible_ok_updateFading)
  have ret: "r = m_visible s'" unfolding r s' by (rule updateFading_returns_m_visible)
  have c: "m_state s' = FadingOut \<longrightarrow> r = m_visible s"
    unfolding r s' by (rule updateFading_FadingOut_after)
  from inv' ret c show ?thesis by (auto simp add: visible_ok_def)
qed

text \<open>
  C6. \<open>updateFading\<close> returns true exactly when the state after the update is \<open>FadingIn\<close>,
  \<open>FadedIn\<close> or \<open>FadingOut\<close>, in particular for every state that is \<open>FadingOut\<close>, however
  the fade-out was entered; the doc comment of \<open>isVisible\<close> (lines 112-114) says the same.
  The code does not do so: \<open>startFadeOut\<close> never sets the visibility flag, so on a fresh
  state \<open>startFadeOut(1, 1)\<close> followed by \<open>updateFading(1, false)\<close> leaves the state
  \<open>FadingOut\<close>, with opacity 1, and returns false; \<open>isVisible\<close> is false there too.
\<close>

theorem updateFading_false_while_FadingOut:
  "startFadeOut 1 1 RenderState_default
     = \<lparr>m_state = FadingOut, m_visible = False, value = 0, startTime = 1, opacity = 1,
        lastFrameNumber = MIN_SAFE_INTEGER\<rparr>
   \<and> updateFading 1 False (startFadeOut 1 1 RenderState_default)
     = (False, \<lparr>m_state = FadingOut, m_visible = False, value = 0, startTime = 1, opacity = 1,
        lastFrameNumber = MIN_SAFE_INTEGER\<rparr>)
   \<and> isFadingOut (snd (updateFading 1 False (startFadeOut 1 1 RenderState_default)))
   \<and> isVisible (snd (updateFading 1 False (startFadeOut 1 1 RenderState_default))) = False"
proof -
  let ?s = "\<lparr>m_state = FadingOut, m_visible = False, value = 0, startTime = 1, opacity = 1,
        lastFrameNumber = MIN_SAFE_INTEGER\<rparr>"
  have a: "startFadeOut 1 1 RenderState_default = ?s" by (rule startFadeOut_default)
  have b: "updateFading 1 False ?s = (False, ?s)"
    by (simp add: updateFading_FadingOut_step DEFAULT_FADE_TIME_def smootherStep_1_0 clamp_def)
  show ?thesis unfolding a b by (simp add: isFadingOut_def isVisible_def)
qed

section \<open>The easing grows strictly\<close>

lemma quintic_deriv: "(quintic has_real_derivative 30 * x * x * (1 - x) * (1 - x)) (at x)"
  unfolding quintic_def
  by (auto intro!: derivative_eq_intros simp add: algebra_simps)

lemma quintic_strict_mono:
  assumes "0 \<le> a" and "a < b" and "b \<le> 1"
  shows "quintic a < quintic b"
proof (rule DERIV_pos_imp_increasing_open [OF assms(2)])
  fix x assume x: "a < x" "x < b"
  then have "0 < x" "x < 1" using assms by simp_all
  then have "0 < 30 * x * x * (1 - x) * (1 - x)" by simp
  with quintic_deriv [of x]
  show "\<exists>y. (quintic has_real_derivative y) (at x) \<and> 0 < y" by blast
next
  show "continuous_on {a..b} quintic"
    unfolding quintic_def by (intro continuous_intros)
qed

lemma smootherStep_0_1_quintic: "0 \<le> x \<Longrightarrow> x \<le> 1 \<Longrightarrow> smootherStep 0 1 x = quintic x"
  by (simp add: smootherStep_0_1 quintic_def)

lemma smootherStep_0_1_strict_mono:
  assumes "0 \<le> a" and "a < b" and "b \<le> 1"
  shows "smootherStep 0 1 a < smootherStep 0 1 b"
  using quintic_strict_mono [OF assms] assms by (simp add: smootherStep_0_1_quintic)

lemma smootherStep_0_1_inside:
  assumes "0 < x" and "x < 1"
  shows "0 < smootherStep 0 1 x" and "smootherStep 0 1 x < 1"
proof -
  have "smootherStep 0 1 0 < smootherStep 0 1 x"
    using assms by (intro smootherStep_0_1_strict_mono) simp_all
  then show "0 < smootherStep 0 1 x" by (simp add: smootherStep_0_1)
  have "smootherStep 0 1 x < smootherStep 0 1 1"
    using assms by (intro smootherStep_0_1_strict_mono) simp_all
  then show "smootherStep 0 1 x < 1" by (simp add: smootherStep_0_1)
qed

lemma clamp_smootherStep_0_1_inside:
  "0 < x \<Longrightarrow> x < 1 \<Longrightarrow> clamp (smootherStep 0 1 x) 0 1 = smootherStep 0 1 x"
  using smootherStep_0_1_inside [of x] by (simp add: clamp_def)

section \<open>One label fading in\<close>

lemma fadeUpdate_first_frame:
  "fadeUpdate n t True RenderState_default =
     \<lparr>m_state = FadingIn, m_visible = True, value = 0, startTime = t, opacity = 0,
      lastFrameNumber = n\<rparr>"
proof -
  have u: "snd (updateFading t False RenderState_default) = RenderState_default"
    by (simp add: updateFading_not_fading m_state_default)
  show ?thesis
    by (simp add: fadeUpdate_placed [OF u] m_state_default startFadeIn_default)
qed

lemma fadeUpdate_fading_in:
  assumes "t0 \<noteq> 0" and "t0 < t" and "t < t0 + DEFAULT_FADE_TIME"
  shows "fadeUpdate (k + 1) t True
      \<lparr>m_state = FadingIn, m_visible = True, value = v, startTime = t0, opacity = p,
       lastFrameNumber = k\<rparr>
    = \<lparr>m_state = FadingIn, m_visible = True, value = (t - t0) / DEFAULT_FADE_TIME, startTime = t0,
       opacity = smootherStep 0 1 ((t - t0) / DEFAULT_FADE_TIME), lastFrameNumber = k + 1\<rparr>"
proof -
  let ?s = "\<lparr>m_state = FadingIn, m_visible = True, value = v, startTime = t0, opacity = p,
       lastFrameNumber = k\<rparr>"
  let ?x = "(t - t0) / DEFAULT_FADE_TIME"
  have x: "0 < ?x" "?x < 1" using assms by (simp_all add: DEFAULT_FADE_TIME_def)
  have "updateFading t False ?s =
      (m_visible ?s,
       ?s\<lparr>startTime := (if startTime ?s = 0 then t else startTime ?s),
          value := (t - (if startTime ?s = 0 then t else startTime ?s)) / DEFAULT_FADE_TIME,
          opacity := clamp (smootherStep 0 1
            ((t - (if startTime ?s = 0 then t else startTime ?s)) / DEFAULT_FADE_TIME)) 0 1\<rparr>)"
    using assms by (intro updateFading_FadingIn_step) simp_all
  then have u: "snd (updateFading t False ?s) =
      \<lparr>m_state = FadingIn, m_visible = True, value = ?x, startTime = t0,
       opacity = smootherStep 0 1 ?x, lastFrameNumber = k\<rparr>"
    using assms(1) x by (simp add: clamp_smootherStep_0_1_inside)
  show ?thesis by (simp add: fadeUpdate_placed [OF u])
qed

lemma fadeUpdate_faded_in:
  assumes "t0 \<noteq> 0" and "t0 + DEFAULT_FADE_TIME \<le> t"
  shows "fadeUpdate (k + 1) t True
      \<lparr>m_state = FadingIn, m_visible = True, value = v, startTime = t0, opacity = p,
       lastFrameNumber = k\<rparr>
    = \<lparr>m_state = FadedIn, m_visible = True, value = 1, startTime = t0, opacity = 1,
       lastFrameNumber = k + 1\<rparr>"
proof -
  let ?s = "\<lparr>m_state = FadingIn, m_visible = True, value = v, startTime = t0, opacity = p,
       lastFrameNumber = k\<rparr>"
  have "updateFading t False ?s =
      (True, ?s\<lparr>startTime := (if startTime ?s = 0 then t else startTime ?s), value := 1,
         opacity := 1, m_state := FadedIn, m_visible := True\<rparr>)"
    using assms by (intro updateFading_FadingIn_done) simp_all
  then have u: "snd (updateFading t False ?s) =
      \<lparr>m_state = FadedIn, m_visible = True, value = 1, startTime = t0, opacity = 1,
       lastFrameNumber = k\<rparr>"
    using assms(1) by simp
  show ?thesis by (simp add: fadeUpdate_placed [OF u])
qed

lemma placeFrames_fade_in:
  assumes "t0 \<noteq> 0" and "t0 < t1" and "t1 < t2" and "t2 < t0 + DEFAULT_FADE_TIME"
    and "t0 + DEFAULT_FADE_TIME \<le> t3"
  shows "placeFrames n [t0, t1, t2, t3] RenderState_default =
    [\<lparr>m_state = FadingIn, m_visible = True, value = 0, startTime = t0, opacity = 0,
      lastFrameNumber = n\<rparr>,
     \<lparr>m_state = FadingIn, m_visible = True, value = (t1 - t0) / DEFAULT_FADE_TIME, startTime = t0,
      opacity = smootherStep 0 1 ((t1 - t0) / DEFAULT_FADE_TIME), lastFrameNumber = n + 1\<rparr>,
     \<lparr>m_state = FadingIn, m_visible = True, value = (t2 - t0) / DEFAULT_FADE_TIME, startTime = t0,
      opacity = smootherStep 0 1 ((t2 - t0) / DEFAULT_FADE_TIME), lastFrameNumber = n + 1 + 1\<rparr>,
     \<lparr>m_state = FadedIn, m_visible = True, value = 1, startTime = t0, opacity = 1,
      lastFrameNumber = n + 1 + 1 + 1\<rparr>]"
proof -
  have t1: "t1 < t0 + DEFAULT_FADE_TIME" and t2: "t0 < t2" using assms by simp_all
  show ?thesis
    unfolding placeFrames_4 fadeUpdate_first_frame
      fadeUpdate_fading_in [OF assms(1) assms(2) t1]
      fadeUpdate_fading_in [OF assms(1) t2 assms(4)]
      fadeUpdate_faded_in [OF assms(1) assms(5)]
    by (rule refl)
qed

lemma fade_in_opacities:
  assumes "t0 < t1" and "t1 < t2" and "t2 < t0 + DEFAULT_FADE_TIME"
  shows "0 < smootherStep 0 1 ((t1 - t0) / DEFAULT_FADE_TIME)"
    and "smootherStep 0 1 ((t1 - t0) / DEFAULT_FADE_TIME)
           < smootherStep 0 1 ((t2 - t0) / DEFAULT_FADE_TIME)"
    and "smootherStep 0 1 ((t2 - t0) / DEFAULT_FADE_TIME) < 1"
proof -
  let ?x1 = "(t1 - t0) / DEFAULT_FADE_TIME" and ?x2 = "(t2 - t0) / DEFAULT_FADE_TIME"
  have x: "0 < ?x1" "?x1 < ?x2" "?x2 < 1"
    using assms by (simp_all add: DEFAULT_FADE_TIME_def divide_strict_right_mono)
  then have x1: "?x1 < 1" and x2: "0 < ?x2" by linarith+
  show "0 < smootherStep 0 1 ?x1" using x(1) x1 by (rule smootherStep_0_1_inside)
  show "smootherStep 0 1 ?x1 < smootherStep 0 1 ?x2"
    using x by (intro smootherStep_0_1_strict_mono) simp_all
  show "smootherStep 0 1 ?x2 < 1" using x2 x(3) by (rule smootherStep_0_1_inside)
qed

text \<open>
  C9. One tile with one point label, placed without collisions in passes at the times
  1, 267, 400 and 801: the observed states are \<open>FadingIn\<close>, \<open>FadingIn\<close>, \<open>FadingIn\<close>,
  \<open>FadedIn\<close>, the rendered opacity increases strictly over the \<open>FadingIn\<close> frames and is 1
  in the last frame. As amended: in the first frame the label is not rendered, which
  the test observes as \<open>FadedOut\<close> (the fade has just started, at opacity 0, and the
  state of the label itself is \<open>FadingIn\<close>); in the second and third frame it is rendered
  with an opacity above 0 and below 1 that increases strictly, and in the fourth with
  opacity 1. This holds for every four frame times, the first of them not 0, of which
  the first three increase strictly within the fade time and the fourth lies at or past
  its end, as 1, 267, 400, 801 and the test's own 1, 803/3, 401, 801 do.
\<close>

theorem fresh_label_observed_fade_in:
  assumes "t0 \<noteq> 0" and "t0 < t1" and "t1 < t2" and "t2 < t0 + DEFAULT_FADE_TIME"
    and "t0 + DEFAULT_FADE_TIME \<le> t3"
  shows "checkFrames FADE_IN
           (map renderedOpacity (placeFrames n [t0, t1, t2, t3] RenderState_default)) 0
       \<and> map renderedOpacity (placeFrames n [t0, t1, t2, t3] RenderState_default)
           = [None,
              Some (smootherStep 0 1 ((t1 - t0) / DEFAULT_FADE_TIME)),
              Some (smootherStep 0 1 ((t2 - t0) / DEFAULT_FADE_TIME)),
              Some 1]
       \<and> 0 < smootherStep 0 1 ((t1 - t0) / DEFAULT_FADE_TIME)
       \<and> smootherStep 0 1 ((t1 - t0) / DEFAULT_FADE_TIME)
           < smootherStep 0 1 ((t2 - t0) / DEFAULT_FADE_TIME)
       \<and> smootherStep 0 1 ((t2 - t0) / DEFAULT_FADE_TIME) < 1
       \<and> map m_state (placeFrames n [t0, t1, t2, t3] RenderState_default)
           = [FadingIn, FadingIn, FadingIn, FadedIn]"
proof -
  note o = fade_in_opacities [OF assms(2) assms(3) assms(4)]
  show ?thesis
    unfolding placeFrames_fade_in [OF assms]
    using o by (simp add: renderedOpacity_def FADE_IN_def checkOpacity_def)
qed

theorem fresh_label_observed_fade_in_witness:
  "checkFrames FADE_IN
     (map renderedOpacity (placeFrames 2 [1, 267, 400, 801] RenderState_default)) 0
   \<and> map renderedOpacity (placeFrames 2 [1, 267, 400, 801] RenderState_default)
       = [None, Some (1068254824679 / 5120000000000),
          Some (81536001599997 / 163840000000000), Some 1]
   \<and> checkFrames FADE_IN (map renderedOpacity (placeFrames 2 FADE_CYCLE RenderState_default)) 0
   \<and> map renderedOpacity (placeFrames 2 FADE_CYCLE RenderState_default)
       = [None, Some (17 / 81), Some (1 / 2), Some 1]"
proof -
  have a: "(1::real) \<noteq> 0" "(1::real) < 267" "(267::real) < 400"
    "(400::real) < 1 + DEFAULT_FADE_TIME" "(1::real) + DEFAULT_FADE_TIME \<le> 801"
    by (simp_all add: DEFAULT_FADE_TIME_def)
  have b: "(1::real) < 803 / 3" "(803 / 3 :: real) < 401" "(401::real) < 1 + DEFAULT_FADE_TIME"
    by (simp_all add: DEFAULT_FADE_TIME_def)
  have v: "smootherStep 0 1 ((267 - 1) / DEFAULT_FADE_TIME) = 1068254824679 / 5120000000000"
    "smootherStep 0 1 ((400 - 1) / DEFAULT_FADE_TIME) = 81536001599997 / 163840000000000"
    "smootherStep 0 1 ((803 / 3 - 1) / DEFAULT_FADE_TIME) = 17 / 81"
    "smootherStep 0 1 ((401 - 1) / DEFAULT_FADE_TIME) = 1 / 2"
    by (simp_all add: DEFAULT_FADE_TIME_def smootherStep_0_1)
  note claimed = fresh_label_observed_fade_in [OF a, of 2]
  note cycle = fresh_label_observed_fade_in [OF a(1) b a(5), of 2]
  have "checkFrames FADE_IN
      (map renderedOpacity (placeFrames 2 [1, 267, 400, 801] RenderState_default)) 0"
    by (rule claimed [THEN conjunct1])
  moreover have "map renderedOpacity (placeFrames 2 [1, 267, 400, 801] RenderState_default)
       = [None, Some (1068254824679 / 5120000000000),
          Some (81536001599997 / 163840000000000), Some 1]"
    using claimed [THEN conjunct2, THEN conjunct1] unfolding v .
  moreover have "checkFrames FADE_IN
      (map renderedOpacity (placeFrames 2 [1, 803 / 3, 401, 801] RenderState_default)) 0"
    by (rule cycle [THEN conjunct1])
  moreover have "map renderedOpacity (placeFrames 2 [1, 803 / 3, 401, 801] RenderState_default)
       = [None, Some (17 / 81), Some (1 / 2), Some 1]"
    using cycle [THEN conjunct2, THEN conjunct1] unfolding v .
  ultimately show ?thesis unfolding FADE_CYCLE_times by (intro conjI)
qed

text \<open>
  The claim as stated fails in the first frame: at the times 1, 267, 400 and 801 the
  label is not rendered in frame 0, so the checks of the list \<open>FadingIn\<close>, \<open>FadingIn\<close>,
  \<open>FadingIn\<close>, \<open>FadedIn\<close> do not pass, and the test's own list starts with \<open>FadedOut\<close>.
\<close>

theorem fresh_label_first_frame_counterexample:
  "\<not> checkFrames [FadeState.FadingIn, FadeState.FadingIn, FadeState.FadingIn, FadeState.FadedIn]
        (map renderedOpacity (placeFrames 2 [1, 267, 400, 801] RenderState_default)) 0
   \<and> renderedOpacity (hd (placeFrames 2 [1, 267, 400, 801] RenderState_default)) = None
   \<and> hd FADE_IN = FadeState.FadedOut"
proof -
  have a: "(1::real) \<noteq> 0" "(1::real) < 267" "(267::real) < 400"
    "(400::real) < 1 + DEFAULT_FADE_TIME" "(1::real) + DEFAULT_FADE_TIME \<le> 801"
    by (simp_all add: DEFAULT_FADE_TIME_def)
  show ?thesis
    unfolding placeFrames_fade_in [OF a]
    by (simp add: renderedOpacity_def FADE_IN_def)
qed

section \<open>A label whose tile is no longer visited\<close>










end
